theory Spec2Isabelle
  imports Complex_Main
begin

section \<open>Dates\<close>

text \<open>
  A JavaScript \<open>Date\<close> is modelled by its time value: the integer number of milliseconds
  since the epoch (UTC). Invalid dates (time value NaN) and the range limit of
  \<open>TimeClip\<close> are outside the model.

  The local time zone is the function \<open>LocalTZA(t, isUTC)\<close> of ECMAScript, which every
  function reading local calendar fields takes as its first argument: \<open>tz t True\<close> is
  the offset of local time from UTC, in milliseconds, in force at the UTC instant \<open>t\<close>,
  and \<open>tz t False\<close> the offset by which the local time value \<open>t\<close> is read back as an
  instant. The offset may change with \<open>t\<close>, as it does where daylight-saving time is
  kept.
\<close>

type_synonym date = int

type_synonym zone = "int \<Rightarrow> bool \<Rightarrow> int"

definition msPerDay :: int where
  "msPerDay = 86400000"

text \<open>\<open>Day(t)\<close>, \<open>LocalTime(t)\<close> and \<open>UTC(t)\<close> of ECMAScript.\<close>

definition Day :: "int \<Rightarrow> int" where
  "Day t = t div msPerDay"

definition LocalTime :: "zone \<Rightarrow> date \<Rightarrow> int" where
  "LocalTime tz t = t + tz t True"

definition UTC :: "zone \<Rightarrow> int \<Rightarrow> date" where
  "UTC tz t = t - tz t False"

text \<open>A zone that keeps one offset all the time; \<open>fixedZone 0\<close> is UTC.\<close>

definition fixedZone :: "int \<Rightarrow> zone" where
  "fixedZone off = (\<lambda>t isUTC. off)"

text \<open>
  The number of the local calendar day that holds \<open>d\<close>, which is the day that
  \<open>getDate\<close>, \<open>getMonth\<close> and \<open>getFullYear\<close> read; day 0 is 1970-01-01.
\<close>

definition localDay :: "zone \<Rightarrow> date \<Rightarrow> int" where
  "localDay tz d = Day (LocalTime tz d)"

text \<open>
  \<open>d.setHours(0, 0, 0, 0)\<close>: with \<open>t = LocalTime(d)\<close> the new time value is
  \<open>UTC(MakeDate(Day(t), MakeTime(0, 0, 0, 0)))\<close>, the instant at which the local day of
  \<open>d\<close> begins.
\<close>

definition setHours0 :: "zone \<Rightarrow> date \<Rightarrow> date" where
  "setHours0 tz d = UTC tz (Day (LocalTime tz d) * msPerDay)"

text \<open>\<open>d.getDay()\<close>: the local weekday, Sunday = 0; 1970-01-01 was a Thursday.\<close>

definition getDay :: "zone \<Rightarrow> date \<Rightarrow> int" where
  "getDay tz d = (Day (LocalTime tz d) + 4) mod 7"

text \<open>
  \<open>s = new Date(d); s.setDate(d.getDate() - d.getDay())\<close>: in local time the day is moved
  back by the weekday index (rolling into the previous month where needed) and the time
  within the day is kept; the result is read back as an instant.
\<close>

definition setDateBackToSunday :: "zone \<Rightarrow> date \<Rightarrow> date" where
  "setDateBackToSunday tz d = UTC tz (LocalTime tz d - getDay tz d * msPerDay)"

text \<open>
  A zone is steady when its offset never grows by a whole day or more from one local
  midnight to the next. Zones with a fixed offset and zones that keep daylight-saving time
  are steady; a zone is not steady on a date on which it skips a whole calendar day.
\<close>

definition steadyZone :: "zone \<Rightarrow> bool" where
  "steadyZone tz \<longleftrightarrow>
     (\<forall>n. tz ((n + 1) * msPerDay) False - tz (n * msPerDay) False < msPerDay)"

section \<open>Strings\<close>

text \<open>
  Strings are lists of code units below 256. \<open>isWhiteSpace\<close> holds the code units that
  \<open>String.prototype.trim\<close> strips in that range: TAB, LF, VT, FF, CR, SP and NBSP.
\<close>

definition isWhiteSpace :: "char \<Rightarrow> bool" where
  "isWhiteSpace c = (of_char c \<in> {9, 10, 11, 12, 13, 32, 160 :: nat})"

definition trim :: "string \<Rightarrow> string" where
  "trim s = rev (dropWhile isWhiteSpace (rev (dropWhile isWhiteSpace s)))"

text \<open>\<open>n.toString()\<close> for an integral number: its decimal numeral.\<close>

definition digit_char :: "nat \<Rightarrow> char" where
  "digit_char n = ''0123456789'' ! n"

fun digits :: "nat \<Rightarrow> string" where
  "digits n = (if n < 10 then [digit_char n] else digits (n div 10) @ [digit_char (n mod 10)])"

declare digits.simps [simp del]

definition toString :: "int \<Rightarrow> string" where
  "toString i = (if i < 0 then CHR ''-'' # digits (nat (- i)) else digits (nat i))"

section \<open>Tasks and the Home component\<close>

datatype priority = Low | Medium | High

record task =
  id' :: string
  title :: string
  completed :: bool
  priority :: priority
  category :: string
  dueDate :: date
  createdAt :: date

datatype view = Today | Upcoming | Lists | Stats

text \<open>
  The state of \<open>Home\<close>. \<open>storage\<close> is the entry \<open>taskflow_tasks\<close> of localStorage:
  \<open>None\<close> when the key is absent, \<open>Some ts\<close> when it holds the JSON text of \<open>ts\<close>
  (\<open>JSON.stringify\<close> followed by \<open>JSON.parse\<close> and the \<open>new Date\<close> conversions of
  the load effect gives the collection back, so the text is represented by the collection
  it encodes). \<open>writes\<close> logs every \<open>localStorage.setItem\<close> call, oldest first.
\<close>

record home =
  tasks :: "task list"
  activeView :: view
  showAddModal :: bool
  showAIChat :: bool
  categoryFilter :: "string option"
  storage :: "task list option"
  writes :: "task list list"

text \<open>
  The persist effect, \<open>useEffect(..., [tasks])\<close>: it runs after the first render and after
  every render in which \<open>tasks\<close> is a new array.
\<close>

definition persistEffect :: "home \<Rightarrow> home" where
  "persistEffect h =
     (if length (tasks h) > 0
      then h\<lparr>storage := Some (tasks h), writes := writes h @ [tasks h]\<rparr>
      else h)"

text \<open>
  \<open>setTasks(f)\<close>: every updater of the source builds a fresh array (spread, \<open>map\<close>,
  \<open>filter\<close>, a literal), so the component renders again and the persist effect runs.
\<close>

definition setTasks :: "(task list \<Rightarrow> task list) \<Rightarrow> home \<Rightarrow> home" where
  "setTasks f h = persistEffect (h\<lparr>tasks := f (tasks h)\<rparr>)"

text \<open>
  \<open>handleAddTask\<close>; \<open>now\<close> is the reading of \<open>Date.now()\<close> and \<open>created\<close> that of
  \<open>new Date()\<close>.
\<close>

definition handleAddTask ::
  "date \<Rightarrow> date \<Rightarrow> string \<Rightarrow> priority \<Rightarrow> string \<Rightarrow> date \<Rightarrow> home \<Rightarrow> home" where
  "handleAddTask now created ttl p c d =
     setTasks (\<lambda>prev. prev @
       [\<lparr>id' = toString now, title = ttl, completed = False, priority = p,
         category = c, dueDate = d, createdAt = created\<rparr>])"

definition handleToggleTask :: "string \<Rightarrow> home \<Rightarrow> home" where
  "handleToggleTask i =
     setTasks (map (\<lambda>t. if id' t = i then t\<lparr>completed := \<not> completed t\<rparr> else t))"

definition handleDeleteTask :: "string \<Rightarrow> home \<Rightarrow> home" where
  "handleDeleteTask i = setTasks (filter (\<lambda>t. id' t \<noteq> i))"

text \<open>
  Outcomes of the store operations. An early return of a handler is the error branch;
  a handler that has no failing path always yields \<open>Inr\<close>. The collection that the
  store's \<open>all()\<close> gives is \<open>tasks\<close>.
\<close>

datatype error = ValidationError | NotFoundError

definition toggle :: "string \<Rightarrow> home \<Rightarrow> error + home" where
  "toggle i h = Inr (handleToggleTask i h)"

text \<open>
  \<open>getFilteredTasks\<close>; \<open>now\<close> is the reading of \<open>new Date()\<close>. The test
  \<open>if (categoryFilter)\<close> passes for a string that is neither null nor empty.
\<close>

definition getFilteredTasks :: "zone \<Rightarrow> date \<Rightarrow> home \<Rightarrow> task list" where
  "getFilteredTasks tz now h =
     (let today = setHours0 tz now;
          filtered =
            (if activeView h = Today
             then filter (\<lambda>t. setHours0 tz (dueDate t) = today) (tasks h)
             else if activeView h = Upcoming
             then filter (\<lambda>t. setHours0 tz (dueDate t) > today) (tasks h)
             else tasks h)
      in case categoryFilter h of
           None \<Rightarrow> filtered
         | Some c \<Rightarrow> if c \<noteq> [] then filter (\<lambda>t. category t = c) filtered else filtered)"

text \<open>The bottom navigation buttons: \<open>setActiveView(v); setCategoryFilter(null)\<close>.\<close>

definition navigate :: "view \<Rightarrow> home \<Rightarrow> home" where
  "navigate v h = h\<lparr>activeView := v, categoryFilter := None\<rparr>"

subsection \<open>ListsView\<close>

definition categories :: "string list" where
  "categories = [''Work'', ''Personal'', ''Shopping'']"

definition categoryCounts :: "task list \<Rightarrow> (string \<times> nat) list" where
  "categoryCounts ts =
     map (\<lambda>cat. (cat, length (filter (\<lambda>t. category t = cat \<and> \<not> completed t) ts))) categories"

text \<open>
  \<open>handleCategoryClick\<close>: the first component of the state is \<open>activeCategory\<close>, the local
  state of \<open>ListsView\<close>; \<open>onFilterChange\<close> is \<open>setCategoryFilter\<close> of \<open>Home\<close>.
\<close>

definition handleCategoryClick :: "string \<Rightarrow> string option \<times> home \<Rightarrow> string option \<times> home" where
  "handleCategoryClick cat s =
     (let activeCategory = fst s;
          newCategory = (if activeCategory = Some cat then None else Some cat)
      in (newCategory, (snd s)\<lparr>categoryFilter := newCategory\<rparr>))"

subsection \<open>StatsView\<close>

text \<open>
  The rates are JavaScript numbers in the source; the model computes them over the reals,
  without the rounding of floating-point division and multiplication.
\<close>

definition completionRate :: "task list \<Rightarrow> real" where
  "completionRate ts =
     (let totalTasks = length ts;
          completedTasks = length (filter completed ts)
      in if totalTasks > 0 then (real completedTasks / real totalTasks) * 100 else 0)"

definition startOfWeek :: "zone \<Rightarrow> date \<Rightarrow> date" where
  "startOfWeek tz today = setDateBackToSunday tz today"

definition weeklyTasks :: "zone \<Rightarrow> date \<Rightarrow> task list \<Rightarrow> task list" where
  "weeklyTasks tz today ts = filter (\<lambda>t. createdAt t \<ge> startOfWeek tz today) ts"

definition weeklyRate :: "zone \<Rightarrow> date \<Rightarrow> task list \<Rightarrow> real" where
  "weeklyRate tz today ts =
     (let wk = weeklyTasks tz today ts;
          weeklyCompleted = length (filter completed wk)
      in if length wk > 0 then (real weeklyCompleted / real (length wk)) * 100 else 0)"

definition categoryRate :: "string \<Rightarrow> task list \<Rightarrow> real" where
  "categoryRate cat ts =
     (let categoryTasks = filter (\<lambda>t. category t = cat) ts;
          categoryCompleted = length (filter completed categoryTasks)
      in if length categoryTasks > 0
         then (real categoryCompleted / real (length categoryTasks)) * 100 else 0)"

record statsView =
  sv_completionRate :: real
  sv_weeklyRate :: real
  sv_breakdown :: "(string \<times> real) list"

definition StatsView :: "zone \<Rightarrow> date \<Rightarrow> task list \<Rightarrow> statsView" where
  "StatsView tz today ts =
     \<lparr>sv_completionRate = completionRate ts,
      sv_weeklyRate = weeklyRate tz today ts,
      sv_breakdown = map (\<lambda>cat. (cat, categoryRate cat ts)) categories\<rparr>"

subsection \<open>What Home shows\<close>

text \<open>
  The main content of \<open>Home\<close>: \<open>ListsView\<close> and \<open>StatsView\<close> receive \<open>tasks\<close>; the other
  two views show the filter badge and the filtered tasks, incomplete ones first.
\<close>

datatype screen =
  ListsScreen "(string \<times> nat) list"
| StatsScreen statsView
| TaskScreen "string option" "task list" "task list"

definition render :: "zone \<Rightarrow> date \<Rightarrow> home \<Rightarrow> screen" where
  "render tz now h =
     (if activeView h = Lists then ListsScreen (categoryCounts (tasks h))
      else if activeView h = Stats then StatsScreen (StatsView tz now (tasks h))
      else (let filteredTasks = getFilteredTasks tz now h
            in TaskScreen (categoryFilter h)
                 (filter (\<lambda>t. \<not> completed t) filteredTasks)
                 (filter completed filteredTasks)))"

subsection \<open>Loading on startup\<close>

text \<open>The sample tasks; every \<open>new Date()\<close> of the literal is taken as the one reading \<open>now\<close>.\<close>

definition sampleTasks :: "date \<Rightarrow> task list" where
  "sampleTasks now =
     [\<lparr>id' = ''1'', title = ''Review Q1 project proposals'', completed = False,
        priority = High, category = ''Work'', dueDate = now, createdAt = now\<rparr>,
      \<lparr>id' = ''2'', title = ''Buy groceries for the week'', completed = False,
        priority = Medium, category = ''Shopping'', dueDate = now, createdAt = now\<rparr>,
      \<lparr>id' = ''3'', title = ''Call mom to check in'', completed = True,
        priority = Low, category = ''Personal'', dueDate = now, createdAt = now\<rparr>]"

definition initialHome :: "task list option \<Rightarrow> home" where
  "initialHome st =
     \<lparr>tasks = [], activeView = Today, showAddModal = False, showAIChat = False,
      categoryFilter = None, storage = st, writes = []\<rparr>"

definition loadEffect :: "date \<Rightarrow> home \<Rightarrow> home" where
  "loadEffect now h =
     (case storage h of
        Some savedTasks \<Rightarrow> setTasks (\<lambda>_. savedTasks) h
      | None \<Rightarrow> setTasks (\<lambda>_. sampleTasks now) h)"

text \<open>
  Mounting \<open>Home\<close> over a localStorage holding \<open>st\<close>: after the first render (with
  \<open>tasks = []\<close>) the persist effect runs on the empty collection and the load effect sets
  the collection, which renders again and runs the persist effect once more. (The load
  effect is declared first; the persist effect of the first render writes nothing, so the
  order of the two does not show.)
\<close>

definition mount :: "date \<Rightarrow> task list option \<Rightarrow> home" where
  "mount now st = loadEffect now (persistEffect (initialHome st))"

subsection \<open>QuickAddModal\<close>

record quickAdd =
  qa_title :: string
  qa_priority :: priority
  qa_category :: string
  qa_dueDate :: date

text \<open>
  \<open>QuickAddModal.handleSubmit\<close> with \<open>onAdd = handleAddTask\<close> and
  \<open>onClose = () => setShowAddModal(false)\<close>. \<open>now\<close> and \<open>created\<close> are the clock readings
  of \<open>handleAddTask\<close>, \<open>reset\<close> the one of \<open>setDueDate(new Date())\<close>.
\<close>

definition QuickAddModal_handleSubmit ::
  "date \<Rightarrow> date \<Rightarrow> date \<Rightarrow> quickAdd \<times> home \<Rightarrow> error + quickAdd \<times> home" where
  "QuickAddModal_handleSubmit now created reset s =
     (let q = fst s; h = snd s
      in if trim (qa_title q) = [] then Inl ValidationError
         else Inr (\<lparr>qa_title = [], qa_priority = Medium, qa_category = ''Personal'',
                     qa_dueDate = reset\<rparr>,
                   (handleAddTask now created (qa_title q) (qa_priority q) (qa_category q)
                      (qa_dueDate q) h)\<lparr>showAddModal := False\<rparr>))"

section \<open>The assistant chat\<close>

datatype role = User | Assistant

text \<open>
  \<open>ChatMessage\<close>; the fields \<open>id\<close>, \<open>type\<close> and \<open>tips\<close> are \<open>msg_id\<close>, \<open>msg_type\<close> and
  \<open>msg_tips\<close>. An optional field that is absent is \<open>None\<close>.
\<close>

record chatMessage =
  msg_id :: string
  msg_type :: role
  content :: string
  msg_tips :: "string list option"
  prioritySuggestions :: "string list option"
  relatedTopics :: "string list option"
  timestamp :: date

record taskAssistantResult =
  answer :: string
  tips :: "string list"
  priority_suggestions :: "string list"
  related_topics :: "string list"

text \<open>
  Modelled from the spec: the type \<open>NormalizedAgentResponse\<close> of \<open>@/utils/aiAgent\<close>, which
  the source imports. The envelope is
  \<open>{ success, response: { status, result?, message? } }\<close>.
\<close>

record agentResponse =
  status :: string
  result :: "taskAssistantResult option"
  message :: "string option"

record normalizedAgentResponse =
  success :: bool
  response :: agentResponse

text \<open>How the promise of \<open>callAIAgent\<close> settles.\<close>

datatype outcome = Fulfilled normalizedAgentResponse | Rejected

definition AGENT_ID :: string where
  "AGENT_ID = ''697176e5d6d0dcaec1119067''"

text \<open>
  The state of \<open>AIChat\<close>; \<open>requests\<close> logs the calls of \<open>callAIAgent\<close> (text and agent
  identifier), oldest first.
\<close>

record chat =
  messages :: "chatMessage list"
  input :: string
  loading :: bool
  requests :: "(string \<times> string) list"

definition initialChat :: chat where
  "initialChat = \<lparr>messages = [], input = [], loading = False, requests = []\<rparr>"

definition suggestions :: "string list" where
  "suggestions = [''Prioritize my tasks'', ''What should I focus on?'',
                  ''Help me manage my time'', ''Tips for productivity'']"

text \<open>
  \<open>handleSendMessage\<close> up to its \<open>await\<close>; \<open>now\<close> is the reading of \<open>Date.now()\<close> and
  \<open>ts\<close> that of \<open>new Date()\<close>.
\<close>

definition handleSendMessage_begin :: "date \<Rightarrow> date \<Rightarrow> string \<Rightarrow> chat \<Rightarrow> chat" where
  "handleSendMessage_begin now ts text c =
     (let userMessage =
            \<lparr>msg_id = toString now, msg_type = User, content = text, msg_tips = None,
             prioritySuggestions = None, relatedTopics = None, timestamp = ts\<rparr>
      in c\<lparr>messages := messages c @ [userMessage], input := [], loading := True,
            requests := requests c @ [(text, AGENT_ID)]\<rparr>)"

definition networkErrorMessage :: "date \<Rightarrow> date \<Rightarrow> chatMessage" where
  "networkErrorMessage now ts =
     \<lparr>msg_id = toString (now + 1), msg_type = Assistant,
      content = ''Network error. Please check your connection and try again.'',
      msg_tips = None, prioritySuggestions = None, relatedTopics = None, timestamp = ts\<rparr>"

text \<open>
  \<open>handleSendMessage\<close> from the \<open>await\<close> on. In the success branch \<open>data.answer\<close> on a
  missing \<open>result\<close> throws a TypeError inside the \<open>try\<close>, before any \<open>setMessages\<close>,
  and the \<open>catch\<close> block runs. \<open>message || fallback\<close> takes the fallback for an absent
  and for an empty message. The \<open>finally\<close> block clears \<open>loading\<close>.
\<close>

definition handleSendMessage_resume :: "date \<Rightarrow> date \<Rightarrow> outcome \<Rightarrow> chat \<Rightarrow> chat" where
  "handleSendMessage_resume now ts out c =
     (let reply =
        (case out of
           Rejected \<Rightarrow> networkErrorMessage now ts
         | Fulfilled r \<Rightarrow>
             if success r \<and> status (response r) = ''success''
             then (case result (response r) of
                     None \<Rightarrow> networkErrorMessage now ts
                   | Some data \<Rightarrow>
                       \<lparr>msg_id = toString (now + 1), msg_type = Assistant,
                        content = answer data, msg_tips = Some (tips data),
                        prioritySuggestions = Some (priority_suggestions data),
                        relatedTopics = Some (related_topics data), timestamp = ts\<rparr>)
             else \<lparr>msg_id = toString (now + 1), msg_type = Assistant,
                   content = (case message (response r) of
                                None \<Rightarrow> ''Sorry, I encountered an error. Please try again.''
                              | Some m \<Rightarrow> if m \<noteq> [] then m
                                          else ''Sorry, I encountered an error. Please try again.''),
                   msg_tips = None, prioritySuggestions = None, relatedTopics = None,
                   timestamp = ts\<rparr>)
      in c\<lparr>messages := messages c @ [reply], loading := False\<rparr>)"

definition AIChat_handleSubmit :: "date \<Rightarrow> date \<Rightarrow> chat \<Rightarrow> error + chat" where
  "AIChat_handleSubmit now ts c =
     (if trim (input c) = [] \<or> loading c then Inl ValidationError
      else Inr (handleSendMessage_begin now ts (input c) c))"

definition handleSuggestionClick :: "date \<Rightarrow> date \<Rightarrow> string \<Rightarrow> chat \<Rightarrow> chat" where
  "handleSuggestionClick now ts suggestion c = handleSendMessage_begin now ts suggestion c"

text \<open>
  The two ways the interface sends: submitting the form, and clicking the \<open>i\<close>-th
  suggestion button, which is rendered only while \<open>messages.length === 0\<close>. A handler
  that returns early leaves the state as it is.
\<close>

datatype intent = SubmitForm | ClickSuggestion nat

definition send_intent :: "date \<Rightarrow> date \<Rightarrow> intent \<Rightarrow> chat \<Rightarrow> chat" where
  "send_intent now ts i c =
     (case i of
        SubmitForm \<Rightarrow> (case AIChat_handleSubmit now ts c of Inl e \<Rightarrow> c | Inr c' \<Rightarrow> c')
      | ClickSuggestion k \<Rightarrow>
          if messages c = [] \<and> k < length suggestions
          then handleSuggestionClick now ts (suggestions ! k) c else c)"

text \<open>
  The states the chat can be in: the initial one, and those reached by typing into the
  input, by a send intent, or by the settling of the request while one is awaited.
\<close>

inductive reachable_chat :: "chat \<Rightarrow> bool" where
  init: "reachable_chat initialChat"
| typing: "reachable_chat c \<Longrightarrow> reachable_chat (c\<lparr>input := s\<rparr>)"
| send: "reachable_chat c \<Longrightarrow> reachable_chat (send_intent now ts i c)"
| settle: "reachable_chat c \<Longrightarrow> loading c \<Longrightarrow> reachable_chat (handleSendMessage_resume now ts out c)"

section \<open>Example data\<close>

text \<open>
  Concrete inputs for the closed theorems below. The clock reading 1793804400000 is
  Wednesday 2026-11-04, 15:00 UTC; 1793523600000 is Sunday 2026-11-01, 09:00 UTC.
\<close>

definition ex_task :: "string \<Rightarrow> string \<Rightarrow> bool \<Rightarrow> date \<Rightarrow> date \<Rightarrow> task" where
  "ex_task i c b due created =
     \<lparr>id' = i, title = ''task'', completed = b, priority = Medium, category = c,
      dueDate = due, createdAt = created\<rparr>"

definition ex_home :: "task list \<Rightarrow> home" where
  "ex_home ts =
     \<lparr>tasks = ts, activeView = Today, showAddModal = False, showAIChat = False,
      categoryFilter = None, storage = Some ts, writes = []\<rparr>"

definition ex_form :: "string \<Rightarrow> date \<Rightarrow> quickAdd" where
  "ex_form ttl d =
     \<lparr>qa_title = ttl, qa_priority = Medium, qa_category = ''Personal'', qa_dueDate = d\<rparr>"

definition ex_three :: "task list" where
  "ex_three =
     [ex_task ''y'' ''Work'' False 1793746799999 1793523600000,
      ex_task ''a'' ''Personal'' True 1793833199999 1793523600000,
      ex_task ''m'' ''Work'' False 1793833200000 1793523600000]"

text \<open>
  New York around the end of daylight-saving time in 2026: the offset is four hours behind
  UTC before 2026-11-01, 06:00 UTC (1793512800000), and five hours behind from then on. A
  local time value before 02:00 of that day (1793498400000) is read with the earlier
  offset, which is how ECMAScript reads the hour that occurs twice.
\<close>

definition ex_newYork :: zone where
  "ex_newYork t isUTC =
     (if isUTC then (if t < 1793512800000 then - 14400000 else - 18000000)
      else (if t < 1793498400000 then - 14400000 else - 18000000))"

text \<open>
  Four tasks due, in New York time, on 2026-10-31 at 23:59:59.999, on 2026-11-01 at 00:30
  (daylight-saving time) and at 12:00 (standard time), and on 2026-11-02 at 00:00.
\<close>

definition ex_autumn :: "task list" where
  "ex_autumn =
     [ex_task ''w'' ''Work'' False 1793505599999 1793491200000,
      ex_task ''x'' ''Work'' False 1793507400000 1793491200000,
      ex_task ''y'' ''Personal'' False 1793552400000 1793491200000,
      ex_task ''z'' ''Work'' False 1793595600000 1793491200000]"

definition ex_added :: home where
  "ex_added =
     (handleAddTask 1793804400000 1793804400000 ''Buy milk'' Medium ''Personal'' 1793804400000
        (ex_home []))\<lparr>showAddModal := False\<rparr>"

definition ex_awaiting :: chat where
  "ex_awaiting =
     send_intent 1793804400000 1793804400000 SubmitForm
       (initialChat\<lparr>input := ''Prioritize my tasks''\<rparr>)"

definition ex_success :: outcome where
  "ex_success =
     Fulfilled \<lparr>success = True,
       response = \<lparr>status = ''success'',
         result = Some \<lparr>answer = ''Focus on high priority'', tips = [''Do urgent first''],
                        priority_suggestions = [''Review Q1''],
                        related_topics = [''time-management'']\<rparr>,
         message = None\<rparr>\<rparr>"

definition ex_soft_error :: outcome where
  "ex_soft_error =
     Fulfilled \<lparr>success = True,
       response = \<lparr>status = ''error'', result = None, message = Some ''Quota exceeded''\<rparr>\<rparr>"

section \<open>Facts about dates and strings\<close>

lemma msPerDay_pos: "0 < msPerDay"
  by (simp add: msPerDay_def)

lemma setHours0_localDay: "setHours0 tz d = UTC tz (localDay tz d * msPerDay)"
  by (simp add: setHours0_def localDay_def)

text \<open>In a steady zone the local days begin one after the other.\<close>

lemma dayStart_Suc:
  "steadyZone tz \<Longrightarrow> UTC tz (n * msPerDay) < UTC tz ((n + 1) * msPerDay)"
proof -
  assume "steadyZone tz"
  then have "tz ((n + 1) * msPerDay) False - tz (n * msPerDay) False < msPerDay"
    by (simp add: steadyZone_def)
  then show ?thesis
    by (simp add: UTC_def algebra_simps)
qed

lemma dayStart_add:
  "steadyZone tz \<Longrightarrow> UTC tz (m * msPerDay) < UTC tz ((m + 1 + int k) * msPerDay)"
proof (induction k)
  case 0
  then show ?case
    using dayStart_Suc [of tz m] by simp
next
  case (Suc k)
  from Suc.prems have "UTC tz ((m + 1 + int k) * msPerDay)
      < UTC tz ((m + 1 + int k + 1) * msPerDay)"
    by (rule dayStart_Suc)
  moreover have "m + 1 + int k + 1 = m + 1 + int (Suc k)"
    by simp
  ultimately show ?case
    using Suc.IH [OF Suc.prems] by simp
qed

lemma dayStart_less:
  "steadyZone tz \<Longrightarrow> m < n \<Longrightarrow> UTC tz (m * msPerDay) < UTC tz (n * msPerDay)"
proof -
  assume st: "steadyZone tz" and "m < n"
  then have "n = m + 1 + int (nat (n - m - 1))"
    by simp
  then show ?thesis
    using dayStart_add [OF st, of m "nat (n - m - 1)"] by simp
qed

lemma setHours0_less_iff:
  "steadyZone tz \<Longrightarrow>
     setHours0 tz a < setHours0 tz b \<longleftrightarrow> localDay tz a < localDay tz b"
proof
  assume st: "steadyZone tz" and less: "setHours0 tz a < setHours0 tz b"
  show "localDay tz a < localDay tz b"
  proof (rule ccontr)
    assume "\<not> localDay tz a < localDay tz b"
    then consider "localDay tz b = localDay tz a" | "localDay tz b < localDay tz a"
      by linarith
    then show False
    proof cases
      case 1
      with less show False
        by (simp add: setHours0_localDay)
    next
      case 2
      with st have "setHours0 tz b < setHours0 tz a"
        by (simp add: setHours0_localDay dayStart_less)
      with less show False
        by simp
    qed
  qed
next
  assume "steadyZone tz" and "localDay tz a < localDay tz b"
  then show "setHours0 tz a < setHours0 tz b"
    by (simp add: setHours0_localDay dayStart_less)
qed

lemma setHours0_eq_iff:
  "steadyZone tz \<Longrightarrow>
     setHours0 tz a = setHours0 tz b \<longleftrightarrow> localDay tz a = localDay tz b"
proof
  assume st: "steadyZone tz" and eq: "setHours0 tz a = setHours0 tz b"
  show "localDay tz a = localDay tz b"
  proof (rule ccontr)
    assume "localDay tz a \<noteq> localDay tz b"
    then consider "localDay tz a < localDay tz b" | "localDay tz b < localDay tz a"
      by linarith
    then show False
      using eq setHours0_less_iff [OF st, of a b] setHours0_less_iff [OF st, of b a]
      by cases simp_all
  qed
next
  assume "localDay tz a = localDay tz b"
  then show "setHours0 tz a = setHours0 tz b"
    by (simp add: setHours0_localDay)
qed

lemma steadyZone_fixed: "steadyZone (fixedZone off)"
  by (simp add: steadyZone_def fixedZone_def msPerDay_def)

lemma steadyZone_newYork: "steadyZone ex_newYork"
  by (simp add: steadyZone_def ex_newYork_def msPerDay_def)

text \<open>
  With a fixed offset, truncation subtracts the time within the local day, and a date
  lies on local day \<open>n\<close> exactly when it is in the 24 hours from that day's local
  midnight.
\<close>

lemma setHours0_fixed:
  "setHours0 (fixedZone off) d = d - (d + off) mod msPerDay"
proof -
  have "d + off = (d + off) div msPerDay * msPerDay + (d + off) mod msPerDay"
    by simp
  then show ?thesis
    unfolding setHours0_def UTC_def LocalTime_def Day_def fixedZone_def by linarith
qed

lemma localDay_iff:
  "localDay (fixedZone off) d = n \<longleftrightarrow>
     n * msPerDay - off \<le> d \<and> d < (n + 1) * msPerDay - off"
proof
  assume "localDay (fixedZone off) d = n"
  then have n: "n = (d + off) div msPerDay"
    by (simp add: localDay_def Day_def LocalTime_def fixedZone_def)
  have "d + off = n * msPerDay + (d + off) mod msPerDay"
    unfolding n by simp
  moreover have "0 \<le> (d + off) mod msPerDay" "(d + off) mod msPerDay < msPerDay"
    using msPerDay_pos by simp_all
  ultimately show "n * msPerDay - off \<le> d \<and> d < (n + 1) * msPerDay - off"
    by (simp add: algebra_simps)
next
  assume a: "n * msPerDay - off \<le> d \<and> d < (n + 1) * msPerDay - off"
  have "(d + off) div msPerDay = n"
  proof (rule int_div_pos_eq)
    show "d + off = msPerDay * n + (d + off - n * msPerDay)"
      by simp
    show "0 \<le> d + off - n * msPerDay"
      using a by simp
    show "d + off - n * msPerDay < msPerDay"
      using a by (simp add: algebra_simps)
  qed
  then show "localDay (fixedZone off) d = n"
    by (simp add: localDay_def Day_def LocalTime_def fixedZone_def)
qed

lemma trim_empty_iff: "trim s = [] \<longleftrightarrow> (\<forall>c \<in> set s. isWhiteSpace c)"
proof
  assume "trim s = []"
  then have a: "\<forall>c \<in> set (dropWhile isWhiteSpace s). isWhiteSpace c"
    by (simp add: trim_def dropWhile_eq_Nil_conv)
  have "dropWhile isWhiteSpace s = []"
  proof (rule ccontr)
    assume ne: "dropWhile isWhiteSpace s \<noteq> []"
    then have "\<not> isWhiteSpace (hd (dropWhile isWhiteSpace s))"
      by (rule hd_dropWhile)
    moreover from ne have "hd (dropWhile isWhiteSpace s) \<in> set (dropWhile isWhiteSpace s)"
      by simp
    ultimately show False
      using a by blast
  qed
  then show "\<forall>c \<in> set s. isWhiteSpace c"
    by (simp add: dropWhile_eq_Nil_conv)
next
  assume "\<forall>c \<in> set s. isWhiteSpace c"
  then have d: "dropWhile isWhiteSpace s = []"
    by (simp add: dropWhile_eq_Nil_conv)
  show "trim s = []"
    unfolding trim_def d by simp
qed

subsection \<open>The decimal numeral of a number determines the number\<close>

lemma of_char_digit_char: "n < 10 \<Longrightarrow> of_char (digit_char n) = (48 + n :: nat)"
proof -
  assume "n < 10"
  then have "n \<in> set [0 ..< 10]"
    by simp
  also have "[0 ..< 10] = [0, 1, 2, 3, 4, 5, 6, 7, 8, 9 :: nat]"
    by (simp add: upt_rec)
  finally show ?thesis
    by (auto simp add: digit_char_def)
qed

lemma digit_char_inj: "a < 10 \<Longrightarrow> b < 10 \<Longrightarrow> digit_char a = digit_char b \<Longrightarrow> a = b"
  by (metis of_char_digit_char add_left_cancel)

lemma digit_char_not_minus: "n < 10 \<Longrightarrow> digit_char n \<noteq> CHR ''-''"
proof
  assume "n < 10" "digit_char n = CHR ''-''"
  then have "48 + n = (of_char (CHR ''-'') :: nat)"
    by (metis of_char_digit_char)
  then show False
    by simp
qed

lemma digits_nonempty: "digits n \<noteq> []"
  by (subst digits.simps) simp

lemma digits_nonempty': "[] \<noteq> digits n"
  using digits_nonempty [of n] by simp

lemma hd_digits_not_minus: "hd (digits n) \<noteq> CHR ''-''"
proof (induction n rule: digits.induct)
  case (1 n)
  show ?case
  proof (cases "n < 10")
    case True
    then show ?thesis
      by (subst digits.simps) (simp add: digit_char_not_minus)
  next
    case False
    then have "hd (digits n) = hd (digits (n div 10))"
      by (subst digits.simps) (simp add: digits_nonempty)
    with 1 False show ?thesis
      by simp
  qed
qed

lemma digits_inj: "digits n = digits m \<Longrightarrow> n = m"
proof (induction n arbitrary: m rule: digits.induct)
  case (1 n)
  show ?case
  proof (cases "n < 10")
    case n: True
    show ?thesis
    proof (cases "m < 10")
      case True
      with n "1.prems" show ?thesis
        by (simp add: digits.simps [of n] digits.simps [of m] digit_char_inj)
    next
      case False
      with n "1.prems" show ?thesis
        by (simp add: digits.simps [of n] digits.simps [of m] digits_nonempty digits_nonempty')
    qed
  next
    case n: False
    show ?thesis
    proof (cases "m < 10")
      case True
      with n "1.prems" show ?thesis
        by (simp add: digits.simps [of n] digits.simps [of m] digits_nonempty digits_nonempty')
    next
      case False
      with n "1.prems" have a: "digits (n div 10) = digits (m div 10)"
        and b: "digit_char (n mod 10) = digit_char (m mod 10)"
        by (simp_all add: digits.simps [of n] digits.simps [of m])
      from "1.IH" [OF n a] have "n div 10 = m div 10" .
      moreover from b have "n mod 10 = m mod 10"
        by (simp add: digit_char_inj)
      ultimately show ?thesis
        by (metis div_mult_mod_eq)
    qed
  qed
qed

lemma toString_inj: "toString a = toString b \<Longrightarrow> a = b"
proof -
  assume eq: "toString a = toString b"
  have neg: "hd (toString i) = CHR ''-'' \<longleftrightarrow> i < 0" for i
    by (simp add: toString_def hd_digits_not_minus)
  from eq have s: "a < 0 \<longleftrightarrow> b < 0"
    by (metis neg)
  show "a = b"
  proof (cases "a < 0")
    case True
    with s eq have "digits (nat (- a)) = digits (nat (- b))"
      by (simp add: toString_def)
    then have "nat (- a) = nat (- b)"
      by (rule digits_inj)
    with True s show ?thesis
      by simp
  next
    case False
    with s eq have "digits (nat a) = digits (nat b)"
      by (simp add: toString_def)
    then have "nat a = nat b"
      by (rule digits_inj)
    with False s show ?thesis
      by simp
  qed
qed

lemma toString_example: "toString 1793804400000 = ''1793804400000'' \<and> toString (- 12) = ''-12''"
  by (simp add: toString_def digits.simps digit_char_def)

section \<open>The task store\<close>

lemma tasks_persistEffect: "tasks (persistEffect h) = tasks h"
  by (simp add: persistEffect_def)

lemma tasks_setTasks: "tasks (setTasks f h) = f (tasks h)"
  by (simp add: setTasks_def tasks_persistEffect)

lemma tasks_handleAddTask:
  "tasks (handleAddTask now created ttl p c d h) = tasks h @
     [\<lparr>id' = toString now, title = ttl, completed = False, priority = p,
       category = c, dueDate = d, createdAt = created\<rparr>]"
  by (simp add: handleAddTask_def tasks_setTasks)

lemma tasks_handleToggleTask:
  "tasks (handleToggleTask i h) =
     map (\<lambda>t. if id' t = i then t\<lparr>completed := \<not> completed t\<rparr> else t) (tasks h)"
  by (simp add: handleToggleTask_def tasks_setTasks)

lemma tasks_handleDeleteTask:
  "tasks (handleDeleteTask i h) = filter (\<lambda>t. id' t \<noteq> i) (tasks h)"
  by (simp add: handleDeleteTask_def tasks_setTasks)

subsection \<open>Adding\<close>

lemma handleSubmit_blank:
  "trim (qa_title q) = [] \<Longrightarrow>
     QuickAddModal_handleSubmit now created reset (q, h) = Inl ValidationError"
  by (simp add: QuickAddModal_handleSubmit_def)

lemma handleSubmit_Inr:
  assumes "QuickAddModal_handleSubmit now created reset (q, h) = Inr (q', h')"
  shows "tasks h' = tasks h @
        [\<lparr>id' = toString now, title = qa_title q, completed = False, priority = qa_priority q,
          category = qa_category q, dueDate = qa_dueDate q, createdAt = created\<rparr>]"
  using assms
  by (auto simp add: QuickAddModal_handleSubmit_def Let_def tasks_handleAddTask
      split: if_splits)

lemma ex_added_tasks:
  "tasks ex_added =
     [\<lparr>id' = ''1793804400000'', title = ''Buy milk'', completed = False, priority = Medium,
       category = ''Personal'', dueDate = 1793804400000, createdAt = 1793804400000\<rparr>]"
  by (simp add: ex_added_def ex_home_def tasks_handleAddTask toString_example)

lemma ex_submit_first:
  "QuickAddModal_handleSubmit 1793804400000 1793804400000 1793804400000
     (ex_form ''Buy milk'' 1793804400000, ex_home []) = Inr (ex_form [] 1793804400000, ex_added)"
  by (simp add: QuickAddModal_handleSubmit_def ex_form_def ex_added_def trim_def
      isWhiteSpace_def)

text \<open>
  C2 (as amended). Submitting a title that is empty or only white space after trimming
  is refused with \<open>ValidationError\<close>. A submission that succeeds appends the task to the
  collection with \<open>completed = false\<close> and with the decimal numeral of the clock reading as
  its id; of two sequential adds, the second id differs from the first whenever the two
  clock readings differ.
\<close>

theorem add_task:
  "(trim (qa_title q) = [] \<longrightarrow>
      QuickAddModal_handleSubmit now created reset (q, h) = Inl ValidationError) \<and>
   (QuickAddModal_handleSubmit now created reset (q, h) = Inr (q', h') \<longrightarrow>
      tasks h' = tasks h @
        [\<lparr>id' = toString now, title = qa_title q, completed = False, priority = qa_priority q,
          category = qa_category q, dueDate = qa_dueDate q, createdAt = created\<rparr>] \<and>
      (QuickAddModal_handleSubmit now2 created2 reset2 (q2, h') = Inr (q3, h'') \<longrightarrow>
         now2 \<noteq> now \<longrightarrow>
         id' (last (tasks h'')) \<noteq> id' (last (tasks h'))))"
proof (intro conjI impI)
  assume "trim (qa_title q) = []"
  then show "QuickAddModal_handleSubmit now created reset (q, h) = Inl ValidationError"
    by (rule handleSubmit_blank)
next
  assume a: "QuickAddModal_handleSubmit now created reset (q, h) = Inr (q', h')"
  then show t: "tasks h' = tasks h @
        [\<lparr>id' = toString now, title = qa_title q, completed = False, priority = qa_priority q,
          category = qa_category q, dueDate = qa_dueDate q, createdAt = created\<rparr>]"
    by (rule handleSubmit_Inr)
  assume b: "QuickAddModal_handleSubmit now2 created2 reset2 (q2, h') = Inr (q3, h'')"
    and ne: "now2 \<noteq> now"
  from t have "id' (last (tasks h')) = toString now"
    by simp
  moreover from handleSubmit_Inr [OF b] have "id' (last (tasks h'')) = toString now2"
    by simp
  moreover from ne have "toString now2 \<noteq> toString now"
    using toString_inj by blast
  ultimately show "id' (last (tasks h'')) \<noteq> id' (last (tasks h'))"
    by simp
qed

text \<open>
  A blank title is refused; ``Buy milk'' is added at reading 1793804400000 and
  ``Call Bob'' one millisecond later, with a different id.
\<close>

theorem add_task_witness:
  "trim (qa_title (ex_form ''  '' 1793804400000)) = [] \<and>
   QuickAddModal_handleSubmit 1793804400000 1793804400000 1793804400000
     (ex_form ''  '' 1793804400000, ex_home []) = Inl ValidationError \<and>
   QuickAddModal_handleSubmit 1793804400000 1793804400000 1793804400000
     (ex_form ''Buy milk'' 1793804400000, ex_home []) = Inr (ex_form [] 1793804400000, ex_added) \<and>
   QuickAddModal_handleSubmit 1793804400001 1793804400001 1793804400001
     (ex_form ''Call Bob'' 1793804400000, ex_added) =
     Inr (ex_form [] 1793804400001,
          (handleAddTask 1793804400001 1793804400001 ''Call Bob'' Medium ''Personal''
             1793804400000 ex_added)\<lparr>showAddModal := False\<rparr>) \<and>
   (1793804400001 :: int) \<noteq> 1793804400000 \<and>
   id' (last (tasks ((handleAddTask 1793804400001 1793804400001 ''Call Bob'' Medium ''Personal''
             1793804400000 ex_added)\<lparr>showAddModal := False\<rparr>))) \<noteq> id' (last (tasks ex_added))"
proof -
  have blank: "trim (qa_title (ex_form ''  '' 1793804400000)) = []"
    by (simp add: ex_form_def trim_def isWhiteSpace_def)
  have second: "QuickAddModal_handleSubmit 1793804400001 1793804400001 1793804400001
     (ex_form ''Call Bob'' 1793804400000, ex_added) =
     Inr (ex_form [] 1793804400001,
          (handleAddTask 1793804400001 1793804400001 ''Call Bob'' Medium ''Personal''
             1793804400000 ex_added)\<lparr>showAddModal := False\<rparr>)"
    by (simp add: QuickAddModal_handleSubmit_def ex_form_def trim_def isWhiteSpace_def)
  have ne: "(1793804400001 :: int) \<noteq> 1793804400000"
    by simp
  from add_task [of "ex_form ''  '' 1793804400000" 1793804400000 1793804400000 1793804400000
      "ex_home []"] blank
  have 1: "QuickAddModal_handleSubmit 1793804400000 1793804400000 1793804400000
     (ex_form ''  '' 1793804400000, ex_home []) = Inl ValidationError"
    by blast
  from add_task [of "ex_form ''Buy milk'' 1793804400000" 1793804400000 1793804400000 1793804400000
      "ex_home []" "ex_form [] 1793804400000" ex_added 1793804400001 1793804400001 1793804400001
      "ex_form ''Call Bob'' 1793804400000" "ex_form [] 1793804400001"
      "(handleAddTask 1793804400001 1793804400001 ''Call Bob'' Medium ''Personal''
             1793804400000 ex_added)\<lparr>showAddModal := False\<rparr>"]
    ex_submit_first second ne
  have 2: "id' (last (tasks ((handleAddTask 1793804400001 1793804400001 ''Call Bob'' Medium ''Personal''
             1793804400000 ex_added)\<lparr>showAddModal := False\<rparr>))) \<noteq> id' (last (tasks ex_added))"
    by blast
  from blank 1 ex_submit_first second ne 2 show ?thesis
    by blast
qed

text \<open>
  Two sequential adds at one clock reading: both succeed, and the collection then holds
  two tasks with the same id, so the second id is not unique.
\<close>

theorem add_same_reading_counterexample:
  "QuickAddModal_handleSubmit 1793804400000 1793804400000 1793804400000
     (ex_form ''Buy milk'' 1793804400000, ex_home []) = Inr (ex_form [] 1793804400000, ex_added) \<and>
   QuickAddModal_handleSubmit 1793804400000 1793804400000 1793804400000
     (ex_form ''Call Bob'' 1793804400000, ex_added) =
     Inr (ex_form [] 1793804400000,
          (handleAddTask 1793804400000 1793804400000 ''Call Bob'' Medium ''Personal''
             1793804400000 ex_added)\<lparr>showAddModal := False\<rparr>) \<and>
   map id' (tasks ((handleAddTask 1793804400000 1793804400000 ''Call Bob'' Medium ''Personal''
             1793804400000 ex_added)\<lparr>showAddModal := False\<rparr>)) =
     [''1793804400000'', ''1793804400000''] \<and>
   \<not> distinct (map id' (tasks ((handleAddTask 1793804400000 1793804400000 ''Call Bob'' Medium
             ''Personal'' 1793804400000 ex_added)\<lparr>showAddModal := False\<rparr>)))"
proof -
  have second: "QuickAddModal_handleSubmit 1793804400000 1793804400000 1793804400000
     (ex_form ''Call Bob'' 1793804400000, ex_added) =
     Inr (ex_form [] 1793804400000,
          (handleAddTask 1793804400000 1793804400000 ''Call Bob'' Medium ''Personal''
             1793804400000 ex_added)\<lparr>showAddModal := False\<rparr>)"
    by (simp add: QuickAddModal_handleSubmit_def ex_form_def trim_def isWhiteSpace_def)
  have ids: "map id' (tasks ((handleAddTask 1793804400000 1793804400000 ''Call Bob'' Medium
             ''Personal'' 1793804400000 ex_added)\<lparr>showAddModal := False\<rparr>)) =
     [''1793804400000'', ''1793804400000'']"
    by (simp add: tasks_handleAddTask ex_added_tasks toString_example)
  from ex_submit_first second ids show ?thesis
    by simp
qed

subsection \<open>Toggling\<close>

lemma handleToggleTask_twice: "tasks (handleToggleTask i (handleToggleTask i h)) = tasks h"
  by (simp add: tasks_handleToggleTask o_def map_idI)

lemma handleToggleTask_absent:
  "i \<notin> id' ` set (tasks h) \<Longrightarrow> tasks (handleToggleTask i h) = tasks h"
  unfolding tasks_handleToggleTask by (rule map_idI) auto

text \<open>
  C5 (as amended). Toggling the same id twice gives the collection back as it was,
  whether or not the id is present. Toggling never fails: for an id that no task has it
  returns normally and leaves the collection as it was.
\<close>

theorem toggle_twice_restores:
  "tasks (handleToggleTask i (handleToggleTask i h)) = tasks h \<and>
   toggle i h = Inr (handleToggleTask i h) \<and>
   toggle i h \<noteq> Inl NotFoundError \<and>
   (i \<notin> id' ` set (tasks h) \<longrightarrow> tasks (handleToggleTask i h) = tasks h)"
  by (simp add: handleToggleTask_twice handleToggleTask_absent toggle_def)

theorem toggle_twice_restores_witness:
  "''q'' \<notin> id' ` set (tasks (ex_home ex_three)) \<and>
   tasks (handleToggleTask ''q'' (ex_home ex_three)) = tasks (ex_home ex_three) \<and>
   tasks (handleToggleTask ''a'' (handleToggleTask ''a'' (ex_home ex_three))) =
     tasks (ex_home ex_three)"
proof -
  have absent: "''q'' \<notin> id' ` set (tasks (ex_home ex_three))"
    by (simp add: ex_home_def ex_three_def ex_task_def)
  with toggle_twice_restores [of "''q''" "ex_home ex_three"]
  have 1: "tasks (handleToggleTask ''q'' (ex_home ex_three)) = tasks (ex_home ex_three)"
    by blast
  from toggle_twice_restores [of "''a''" "ex_home ex_three"]
  have 2: "tasks (handleToggleTask ''a'' (handleToggleTask ''a'' (ex_home ex_three))) =
     tasks (ex_home ex_three)"
    by blast
  from absent 1 2 show ?thesis
    by blast
qed

text \<open>
  No task of the sample collection has the id \<open>9\<close>, and toggling it does not fail with
  \<open>NotFoundError\<close>: it returns normally with the collection unchanged.
\<close>

theorem toggle_absent_counterexample:
  "''9'' \<notin> id' ` set (tasks (mount 1793804400000 None)) \<and>
   toggle ''9'' (mount 1793804400000 None) \<noteq> Inl NotFoundError \<and>
   toggle ''9'' (mount 1793804400000 None) = Inr (handleToggleTask ''9'' (mount 1793804400000 None)) \<and>
   tasks (handleToggleTask ''9'' (mount 1793804400000 None)) = tasks (mount 1793804400000 None)"
proof -
  have t: "tasks (mount 1793804400000 None) = sampleTasks 1793804400000"
    by (simp add: mount_def loadEffect_def initialHome_def persistEffect_def tasks_setTasks)
  have absent: "''9'' \<notin> id' ` set (tasks (mount 1793804400000 None))"
    unfolding t by (simp add: sampleTasks_def)
  then have "tasks (handleToggleTask ''9'' (mount 1793804400000 None)) =
      tasks (mount 1793804400000 None)"
    by (rule handleToggleTask_absent)
  with absent show ?thesis
    by (simp add: toggle_def)
qed

text \<open>
  C9. Toggling keeps the length and the order of the collection; a task with the given id
  changes in its \<open>completed\<close> field only, which is negated, and every other task stays as
  it was.
\<close>

theorem toggle_frame:
  "length (tasks (handleToggleTask i h)) = length (tasks h) \<and>
   map id' (tasks (handleToggleTask i h)) = map id' (tasks h) \<and>
   (\<forall>k < length (tasks h).
      id' (tasks (handleToggleTask i h) ! k) = id' (tasks h ! k) \<and>
      title (tasks (handleToggleTask i h) ! k) = title (tasks h ! k) \<and>
      priority (tasks (handleToggleTask i h) ! k) = priority (tasks h ! k) \<and>
      category (tasks (handleToggleTask i h) ! k) = category (tasks h ! k) \<and>
      dueDate (tasks (handleToggleTask i h) ! k) = dueDate (tasks h ! k) \<and>
      createdAt (tasks (handleToggleTask i h) ! k) = createdAt (tasks h ! k) \<and>
      (id' (tasks h ! k) = i \<longrightarrow>
         tasks (handleToggleTask i h) ! k =
           (tasks h ! k)\<lparr>completed := \<not> completed (tasks h ! k)\<rparr>) \<and>
      (id' (tasks h ! k) \<noteq> i \<longrightarrow> tasks (handleToggleTask i h) ! k = tasks h ! k))"
  by (simp add: tasks_handleToggleTask)

theorem toggle_frame_witness:
  "(1 :: nat) < length (tasks (ex_home ex_three)) \<and>
   id' (tasks (ex_home ex_three) ! 1) = ''a'' \<and>
   tasks (handleToggleTask ''a'' (ex_home ex_three)) ! 1 =
     (tasks (ex_home ex_three) ! 1)\<lparr>completed := \<not> completed (tasks (ex_home ex_three) ! 1)\<rparr> \<and>
   (0 :: nat) < length (tasks (ex_home ex_three)) \<and>
   id' (tasks (ex_home ex_three) ! 0) \<noteq> ''a'' \<and>
   tasks (handleToggleTask ''a'' (ex_home ex_three)) ! 0 = tasks (ex_home ex_three) ! 0 \<and>
   tasks (handleToggleTask ''a'' (ex_home ex_three)) =
     [ex_task ''y'' ''Work'' False 1793746799999 1793523600000,
      ex_task ''a'' ''Personal'' False 1793833199999 1793523600000,
      ex_task ''m'' ''Work'' False 1793833200000 1793523600000]"
proof -
  have len: "(1 :: nat) < length (tasks (ex_home ex_three))"
    "(0 :: nat) < length (tasks (ex_home ex_three))"
    by (simp_all add: ex_home_def ex_three_def)
  have ids: "id' (tasks (ex_home ex_three) ! 1) = ''a''"
    "id' (tasks (ex_home ex_three) ! 0) \<noteq> ''a''"
    by (simp_all add: ex_home_def ex_three_def ex_task_def)
  from toggle_frame [of "''a''" "ex_home ex_three"] len ids
  have 1: "tasks (handleToggleTask ''a'' (ex_home ex_three)) ! 1 =
      (tasks (ex_home ex_three) ! 1)\<lparr>completed := \<not> completed (tasks (ex_home ex_three) ! 1)\<rparr>"
    and 0: "tasks (handleToggleTask ''a'' (ex_home ex_three)) ! 0 = tasks (ex_home ex_three) ! 0"
    by blast+
  have all: "tasks (handleToggleTask ''a'' (ex_home ex_three)) =
     [ex_task ''y'' ''Work'' False 1793746799999 1793523600000,
      ex_task ''a'' ''Personal'' False 1793833199999 1793523600000,
      ex_task ''m'' ''Work'' False 1793833200000 1793523600000]"
    by (simp add: tasks_handleToggleTask ex_home_def ex_three_def ex_task_def)
  from len ids 1 0 all show ?thesis
    by blast
qed

section \<open>The views\<close>

lemma getFilteredTasks_Today:
  "getFilteredTasks tz now (h\<lparr>activeView := Today, categoryFilter := None\<rparr>) =
     filter (\<lambda>t. setHours0 tz (dueDate t) = setHours0 tz now) (tasks h)"
  by (simp add: getFilteredTasks_def)

lemma getFilteredTasks_Upcoming:
  "getFilteredTasks tz now (h\<lparr>activeView := Upcoming, categoryFilter := None\<rparr>) =
     filter (\<lambda>t. setHours0 tz (dueDate t) > setHours0 tz now) (tasks h)"
  by (simp add: getFilteredTasks_def)

text \<open>
  The navigation buttons clear the category filter, so Today and Upcoming are entered
  without one.
\<close>

lemma navigate_clears_filter:
  "categoryFilter (navigate v h) = None \<and> activeView (navigate v h) = v \<and>
   tasks (navigate v h) = tasks h"
  by (simp add: navigate_def)

text \<open>
  C1. With no category filter, the Today view holds exactly the tasks whose due date,
  cut to the start of its local day, equals the current date cut to the start of its
  local day, and the Upcoming view exactly those whose cut due date is greater. Hence, in
  every time zone, a task due on the current local day, at any time of day, is in Today
  and not in Upcoming. In a steady zone the two views are the tasks due on the current
  local day and the tasks due on a later local day: a task due on the next day is in
  Upcoming and not in Today, and a task due on the day before is in neither.
\<close>

theorem today_upcoming_views:
  "getFilteredTasks tz now (h\<lparr>activeView := Today, categoryFilter := None\<rparr>) =
     filter (\<lambda>t. setHours0 tz (dueDate t) = setHours0 tz now) (tasks h) \<and>
   getFilteredTasks tz now (h\<lparr>activeView := Upcoming, categoryFilter := None\<rparr>) =
     filter (\<lambda>t. setHours0 tz (dueDate t) > setHours0 tz now) (tasks h) \<and>
   (\<forall>t \<in> set (tasks h).
      localDay tz (dueDate t) = localDay tz now \<longrightarrow>
        t \<in> set (getFilteredTasks tz now (h\<lparr>activeView := Today, categoryFilter := None\<rparr>)) \<and>
        t \<notin> set (getFilteredTasks tz now (h\<lparr>activeView := Upcoming, categoryFilter := None\<rparr>))) \<and>
   (steadyZone tz \<longrightarrow>
      getFilteredTasks tz now (h\<lparr>activeView := Today, categoryFilter := None\<rparr>) =
        filter (\<lambda>t. localDay tz (dueDate t) = localDay tz now) (tasks h) \<and>
      getFilteredTasks tz now (h\<lparr>activeView := Upcoming, categoryFilter := None\<rparr>) =
        filter (\<lambda>t. localDay tz (dueDate t) > localDay tz now) (tasks h) \<and>
      (\<forall>t \<in> set (tasks h).
         (localDay tz (dueDate t) = localDay tz now + 1 \<longrightarrow>
            t \<in> set (getFilteredTasks tz now (h\<lparr>activeView := Upcoming, categoryFilter := None\<rparr>)) \<and>
            t \<notin> set (getFilteredTasks tz now (h\<lparr>activeView := Today, categoryFilter := None\<rparr>))) \<and>
         (localDay tz (dueDate t) = localDay tz now - 1 \<longrightarrow>
            t \<notin> set (getFilteredTasks tz now (h\<lparr>activeView := Today, categoryFilter := None\<rparr>)) \<and>
            t \<notin> set (getFilteredTasks tz now (h\<lparr>activeView := Upcoming, categoryFilter := None\<rparr>)))))"
proof (intro conjI impI ballI)
  show "getFilteredTasks tz now (h\<lparr>activeView := Today, categoryFilter := None\<rparr>) =
     filter (\<lambda>t. setHours0 tz (dueDate t) = setHours0 tz now) (tasks h)"
    by (rule getFilteredTasks_Today)
  show "getFilteredTasks tz now (h\<lparr>activeView := Upcoming, categoryFilter := None\<rparr>) =
     filter (\<lambda>t. setHours0 tz (dueDate t) > setHours0 tz now) (tasks h)"
    by (rule getFilteredTasks_Upcoming)
next
  fix t
  assume "t \<in> set (tasks h)" and "localDay tz (dueDate t) = localDay tz now"
  then show "t \<in> set (getFilteredTasks tz now (h\<lparr>activeView := Today, categoryFilter := None\<rparr>))"
    and "t \<notin> set (getFilteredTasks tz now (h\<lparr>activeView := Upcoming, categoryFilter := None\<rparr>))"
    by (simp_all add: getFilteredTasks_Today getFilteredTasks_Upcoming setHours0_localDay)
next
  assume st: "steadyZone tz"
  show "getFilteredTasks tz now (h\<lparr>activeView := Today, categoryFilter := None\<rparr>) =
        filter (\<lambda>t. localDay tz (dueDate t) = localDay tz now) (tasks h)"
    by (simp add: getFilteredTasks_Today setHours0_eq_iff [OF st])
  show "getFilteredTasks tz now (h\<lparr>activeView := Upcoming, categoryFilter := None\<rparr>) =
        filter (\<lambda>t. localDay tz (dueDate t) > localDay tz now) (tasks h)"
    by (simp add: getFilteredTasks_Upcoming setHours0_less_iff [OF st])
next
  fix t
  assume st: "steadyZone tz" and t: "t \<in> set (tasks h)"
    and d: "localDay tz (dueDate t) = localDay tz now + 1"
  from t d show "t \<in> set (getFilteredTasks tz now (h\<lparr>activeView := Upcoming, categoryFilter := None\<rparr>))"
    and "t \<notin> set (getFilteredTasks tz now (h\<lparr>activeView := Today, categoryFilter := None\<rparr>))"
    by (simp_all add: getFilteredTasks_Today getFilteredTasks_Upcoming
        setHours0_eq_iff [OF st] setHours0_less_iff [OF st])
next
  fix t
  assume st: "steadyZone tz" and t: "t \<in> set (tasks h)"
    and d: "localDay tz (dueDate t) = localDay tz now - 1"
  from t d show "t \<notin> set (getFilteredTasks tz now (h\<lparr>activeView := Today, categoryFilter := None\<rparr>))"
    and "t \<notin> set (getFilteredTasks tz now (h\<lparr>activeView := Upcoming, categoryFilter := None\<rparr>))"
    by (simp_all add: getFilteredTasks_Today getFilteredTasks_Upcoming
        setHours0_eq_iff [OF st] setHours0_less_iff [OF st])
qed

text \<open>
  New York on 2026-11-01, the day daylight-saving time ends, at 10:00 standard time
  (1793545200000): the task due at 00:30 daylight-saving time and the task due at 12:00
  standard time are both in Today, although the offset in force differs between them;
  the task due on the day before is in neither view and the task due on the next day is
  in Upcoming.
\<close>

theorem today_upcoming_views_witness:
  "steadyZone ex_newYork \<and>
   ex_task ''w'' ''Work'' False 1793505599999 1793491200000 \<in> set (tasks (ex_home ex_autumn)) \<and>
   ex_task ''x'' ''Work'' False 1793507400000 1793491200000 \<in> set (tasks (ex_home ex_autumn)) \<and>
   ex_task ''y'' ''Personal'' False 1793552400000 1793491200000 \<in> set (tasks (ex_home ex_autumn)) \<and>
   ex_task ''z'' ''Work'' False 1793595600000 1793491200000 \<in> set (tasks (ex_home ex_autumn)) \<and>
   localDay ex_newYork (dueDate (ex_task ''w'' ''Work'' False 1793505599999 1793491200000)) =
     localDay ex_newYork 1793545200000 - 1 \<and>
   localDay ex_newYork (dueDate (ex_task ''x'' ''Work'' False 1793507400000 1793491200000)) =
     localDay ex_newYork 1793545200000 \<and>
   localDay ex_newYork (dueDate (ex_task ''y'' ''Personal'' False 1793552400000 1793491200000)) =
     localDay ex_newYork 1793545200000 \<and>
   localDay ex_newYork (dueDate (ex_task ''z'' ''Work'' False 1793595600000 1793491200000)) =
     localDay ex_newYork 1793545200000 + 1 \<and>
   getFilteredTasks ex_newYork 1793545200000
       ((ex_home ex_autumn)\<lparr>activeView := Today, categoryFilter := None\<rparr>) =
     [ex_task ''x'' ''Work'' False 1793507400000 1793491200000,
      ex_task ''y'' ''Personal'' False 1793552400000 1793491200000] \<and>
   getFilteredTasks ex_newYork 1793545200000
       ((ex_home ex_autumn)\<lparr>activeView := Upcoming, categoryFilter := None\<rparr>) =
     [ex_task ''z'' ''Work'' False 1793595600000 1793491200000]"
  using today_upcoming_views [of ex_newYork 1793545200000 "ex_home ex_autumn"]
    steadyZone_newYork
  by (simp add: ex_home_def ex_autumn_def ex_task_def localDay_def setHours0_def Day_def
      LocalTime_def UTC_def ex_newYork_def msPerDay_def)

subsection \<open>The category filter\<close>

text \<open>
  C7. With the category filter set to a category \<open>c\<close>, the Today view and the Upcoming
  view are the date-filtered tasks restricted to those of category \<open>c\<close>; what the Lists
  and Statistics views show does not depend on the filter and is computed from the whole
  collection; clicking a category sets the filter to it (when it was not the active one),
  and clicking the category that was just selected clears the filter.
\<close>

theorem category_filter:
  "(c \<noteq> [] \<longrightarrow>
      getFilteredTasks tz now (h\<lparr>activeView := Today, categoryFilter := Some c\<rparr>) =
        filter (\<lambda>t. category t = c)
          (getFilteredTasks tz now (h\<lparr>activeView := Today, categoryFilter := None\<rparr>)) \<and>
      getFilteredTasks tz now (h\<lparr>activeView := Upcoming, categoryFilter := Some c\<rparr>) =
        filter (\<lambda>t. category t = c)
          (getFilteredTasks tz now (h\<lparr>activeView := Upcoming, categoryFilter := None\<rparr>))) \<and>
   render tz now (h\<lparr>activeView := Lists, categoryFilter := cf\<rparr>) =
     ListsScreen (categoryCounts (tasks h)) \<and>
   render tz now (h\<lparr>activeView := Stats, categoryFilter := cf\<rparr>) =
     StatsScreen (StatsView tz now (tasks h)) \<and>
   (fst s \<noteq> Some c \<longrightarrow> categoryFilter (snd (handleCategoryClick c s)) = Some c) \<and>
   (categoryFilter (snd (handleCategoryClick c s)) = Some c \<longrightarrow>
      categoryFilter (snd (handleCategoryClick c (handleCategoryClick c s))) = None)"
  by (simp add: getFilteredTasks_def render_def handleCategoryClick_def Let_def)

text \<open>
  For the three example tasks at 16:00 local time on 2026-11-04, one hour ahead of UTC:
  the filter \<open>Personal\<close> keeps the task \<open>a\<close> of Today, the filter \<open>Work\<close> keeps nothing of
  Today and the task \<open>m\<close> of Upcoming. Clicking \<open>Work\<close> in a fresh Lists view sets the
  filter, clicking it again clears it.
\<close>

theorem category_filter_witness:
  "''Work'' \<noteq> [] \<and>
   getFilteredTasks (fixedZone 3600000) 1793804400000
       ((ex_home ex_three)\<lparr>activeView := Today, categoryFilter := Some ''Personal''\<rparr>) =
     [ex_task ''a'' ''Personal'' True 1793833199999 1793523600000] \<and>
   getFilteredTasks (fixedZone 3600000) 1793804400000
       ((ex_home ex_three)\<lparr>activeView := Today, categoryFilter := Some ''Work''\<rparr>) = [] \<and>
   getFilteredTasks (fixedZone 3600000) 1793804400000
       ((ex_home ex_three)\<lparr>activeView := Upcoming, categoryFilter := Some ''Work''\<rparr>) =
     [ex_task ''m'' ''Work'' False 1793833200000 1793523600000] \<and>
   fst (None, ex_home ex_three) \<noteq> Some ''Work'' \<and>
   categoryFilter (snd (handleCategoryClick ''Work'' (None, ex_home ex_three))) = Some ''Work'' \<and>
   categoryFilter (snd (handleCategoryClick ''Work''
     (handleCategoryClick ''Work'' (None, ex_home ex_three)))) = None"
proof -
  have fresh: "fst (None, ex_home ex_three) \<noteq> Some ''Work''"
    by simp
  from category_filter [of "''Work''" _ _ _ _ "(None, ex_home ex_three)"] fresh
  have clicks:
    "categoryFilter (snd (handleCategoryClick ''Work'' (None, ex_home ex_three))) = Some ''Work''"
    "categoryFilter (snd (handleCategoryClick ''Work''
       (handleCategoryClick ''Work'' (None, ex_home ex_three)))) = None"
    by blast+
  have views:
    "getFilteredTasks (fixedZone 3600000) 1793804400000
       ((ex_home ex_three)\<lparr>activeView := Today, categoryFilter := Some ''Personal''\<rparr>) =
     [ex_task ''a'' ''Personal'' True 1793833199999 1793523600000]"
    "getFilteredTasks (fixedZone 3600000) 1793804400000
       ((ex_home ex_three)\<lparr>activeView := Today, categoryFilter := Some ''Work''\<rparr>) = []"
    "getFilteredTasks (fixedZone 3600000) 1793804400000
       ((ex_home ex_three)\<lparr>activeView := Upcoming, categoryFilter := Some ''Work''\<rparr>) =
     [ex_task ''m'' ''Work'' False 1793833200000 1793523600000]"
    using category_filter [of "''Work''" "fixedZone 3600000" 1793804400000 "ex_home ex_three"]
      category_filter [of "''Personal''" "fixedZone 3600000" 1793804400000 "ex_home ex_three"]
    by (simp_all add: getFilteredTasks_def ex_home_def ex_three_def ex_task_def setHours0_fixed
        msPerDay_def)
  from fresh clicks views show ?thesis
    by simp
qed

subsection \<open>Statistics\<close>

text \<open>
  The overall rate is the share of completed tasks in percent, and 0 for the empty
  collection; four tasks of which one is completed give 25.
\<close>

lemma completionRate_eq:
  "completionRate ts =
     (if length ts = 0 then 0
      else real (length (filter completed ts)) / real (length ts) * 100)"
  by (simp add: completionRate_def Let_def)

lemma completionRate_quarter:
  "length ts = 4 \<Longrightarrow> length (filter completed ts) = 1 \<Longrightarrow> completionRate ts = 25"
  by (simp add: completionRate_def Let_def)

text \<open>
  The weekly rate is the same rate over the tasks created at or after the instant that
  \<open>startOfWeek\<close> holds: the current local time moved back by the weekday index in whole
  days. That local time keeps the current time within the day, so it is not the local
  midnight of the Sunday; with a fixed offset it is the current instant minus that many
  times 24 hours.
\<close>

lemma weeklyRate_eq:
  "weeklyRate tz today ts =
     completionRate (filter (\<lambda>t. createdAt t \<ge>
        UTC tz (LocalTime tz today - getDay tz today * msPerDay)) ts)"
  by (simp add: weeklyRate_def completionRate_def weeklyTasks_def startOfWeek_def
      setDateBackToSunday_def Let_def)

lemma startOfWeek_time_of_day:
  "(LocalTime tz today - getDay tz today * msPerDay) mod msPerDay =
     LocalTime tz today mod msPerDay"
  by (metis mod_mult_self4 mult.commute uminus_add_conv_diff add.commute mult_minus_right)

lemma startOfWeek_fixed:
  "startOfWeek (fixedZone off) today = today - getDay (fixedZone off) today * msPerDay"
  by (simp add: startOfWeek_def setDateBackToSunday_def UTC_def LocalTime_def fixedZone_def)

text \<open>
  C4, at a failing input. In UTC on Wednesday 2026-11-04 at 15:00 the week start of the
  source is Sunday 2026-11-01 at 15:00, while the Sunday began at 00:00. A completed
  task created that Sunday at 09:00 lies after the start of the Sunday but is left out
  of the weekly tasks, so the weekly rate is 0; over this one task the rate is 100.
\<close>

theorem weekly_rate_misses_sunday_morning:
  "getDay (fixedZone 0) 1793804400000 = 3 \<and>
   startOfWeek (fixedZone 0) 1793804400000 = 1793545200000 \<and>
   setHours0 (fixedZone 0) (startOfWeek (fixedZone 0) 1793804400000) = 1793491200000 \<and>
   createdAt (ex_task ''1793523600000'' ''Work'' True 1793804400000 1793523600000)
     \<ge> setHours0 (fixedZone 0) (startOfWeek (fixedZone 0) 1793804400000) \<and>
   weeklyTasks (fixedZone 0) 1793804400000
     [ex_task ''1793523600000'' ''Work'' True 1793804400000 1793523600000] = [] \<and>
   weeklyRate (fixedZone 0) 1793804400000
     [ex_task ''1793523600000'' ''Work'' True 1793804400000 1793523600000] = 0 \<and>
   completionRate [ex_task ''1793523600000'' ''Work'' True 1793804400000 1793523600000] = 100"
  by (simp add: weeklyRate_def weeklyTasks_def startOfWeek_def setDateBackToSunday_def getDay_def
      setHours0_def UTC_def LocalTime_def Day_def fixedZone_def msPerDay_def ex_task_def
      completionRate_def)

section \<open>Persistence\<close>

lemma persistEffect_empty: "tasks h = [] \<Longrightarrow> persistEffect h = h"
  by (simp add: persistEffect_def)

lemma setTasks_nonempty:
  "f (tasks h) \<noteq> [] \<Longrightarrow>
     writes (setTasks f h) = writes h @ [f (tasks h)] \<and>
     storage (setTasks f h) = Some (f (tasks h))"
  by (simp add: setTasks_def persistEffect_def)

lemma setTasks_empty:
  "f (tasks h) = [] \<Longrightarrow>
     writes (setTasks f h) = writes h \<and> storage (setTasks f h) = storage h"
  by (simp add: setTasks_def persistEffect_def)

text \<open>
  Deleting the only task changes the collection and persists nothing: the store keeps
  the deleted task, and mounting again over that store brings the task back.
\<close>

lemma deleted_last_task_returns:
  "tasks ex_added \<noteq> [] \<and>
   tasks (handleDeleteTask ''1793804400000'' ex_added) = [] \<and>
   writes (handleDeleteTask ''1793804400000'' ex_added) = writes ex_added \<and>
   storage (handleDeleteTask ''1793804400000'' ex_added) = Some (tasks ex_added) \<and>
   tasks (mount 1793804409000 (storage (handleDeleteTask ''1793804400000'' ex_added))) =
     tasks ex_added"
proof -
  have st: "storage ex_added = Some (tasks ex_added)"
    by (simp add: ex_added_def handleAddTask_def setTasks_def persistEffect_def)
  have del: "tasks (handleDeleteTask ''1793804400000'' ex_added) = []"
    by (simp add: tasks_handleDeleteTask ex_added_tasks)
  then have keep: "writes (handleDeleteTask ''1793804400000'' ex_added) = writes ex_added"
    "storage (handleDeleteTask ''1793804400000'' ex_added) = storage ex_added"
    using setTasks_empty [of "filter (\<lambda>t. id' t \<noteq> ''1793804400000'')" ex_added]
    by (simp_all add: handleDeleteTask_def tasks_setTasks)
  have ne: "tasks ex_added \<noteq> []"
    by (simp add: ex_added_tasks)
  then have "tasks (mount 1793804409000 (Some (tasks ex_added))) = tasks ex_added"
    by (simp add: mount_def loadEffect_def initialHome_def persistEffect_def setTasks_def)
  with st del keep ne show ?thesis
    by simp
qed




text \<open>
  C10. The persist effect does nothing on an empty collection, so a toggle or a delete
  whose result is empty writes nothing and leaves the stored value as it was. Deleting
  the only task empties the collection while the previously stored non-empty collection
  stays stored.
\<close>

theorem empty_never_persisted:
  "(tasks h = [] \<longrightarrow> persistEffect h = h) \<and>
   (tasks (handleDeleteTask i h) = [] \<longrightarrow>
      writes (handleDeleteTask i h) = writes h \<and> storage (handleDeleteTask i h) = storage h) \<and>
   (tasks (handleToggleTask i h) = [] \<longrightarrow>
      writes (handleToggleTask i h) = writes h \<and> storage (handleToggleTask i h) = storage h) \<and>
   (tasks h = [t] \<and> id' t = i \<and> storage h = Some ts \<and> ts \<noteq> [] \<longrightarrow>
      tasks (handleDeleteTask i h) = [] \<and> writes (handleDeleteTask i h) = writes h \<and>
      storage (handleDeleteTask i h) = Some ts)"
  by (simp add: handleToggleTask_def handleDeleteTask_def setTasks_def persistEffect_def)

text \<open>
  After ``Buy milk'' was added to an empty store the task is persisted; deleting it
  leaves the collection empty, writes nothing, and the task remains in storage.
\<close>

theorem empty_never_persisted_witness:
  "tasks ex_added = [\<lparr>id' = ''1793804400000'', title = ''Buy milk'', completed = False,
       priority = Medium, category = ''Personal'', dueDate = 1793804400000,
       createdAt = 1793804400000\<rparr>] \<and>
   storage ex_added = Some (tasks ex_added) \<and>
   tasks ex_added \<noteq> [] \<and>
   tasks (handleDeleteTask ''1793804400000'' ex_added) = [] \<and>
   writes (handleDeleteTask ''1793804400000'' ex_added) = writes ex_added \<and>
   storage (handleDeleteTask ''1793804400000'' ex_added) = Some (tasks ex_added) \<and>
   tasks (handleToggleTask ''1'' (ex_home [])) = [] \<and>
   writes (handleToggleTask ''1'' (ex_home [])) = writes (ex_home []) \<and>
   tasks (ex_home []) = [] \<and>
   persistEffect (ex_home []) = ex_home []"
proof -
  have st: "storage ex_added = Some (tasks ex_added)"
    by (simp add: ex_added_def handleAddTask_def setTasks_def persistEffect_def)
  have ne: "tasks ex_added \<noteq> []"
    by (simp add: ex_added_tasks)
  have i: "id' \<lparr>id' = ''1793804400000'', title = ''Buy milk'', completed = False,
       priority = Medium, category = ''Personal'', dueDate = 1793804400000,
       createdAt = 1793804400000\<rparr> = ''1793804400000''"
    by simp
  from empty_never_persisted [of ex_added "''1793804400000''" _ "tasks ex_added"]
    ex_added_tasks st ne i
  have 1: "tasks (handleDeleteTask ''1793804400000'' ex_added) = []"
    "writes (handleDeleteTask ''1793804400000'' ex_added) = writes ex_added"
    "storage (handleDeleteTask ''1793804400000'' ex_added) = Some (tasks ex_added)"
    by metis+
  have e: "tasks (ex_home []) = []" "tasks (handleToggleTask ''1'' (ex_home [])) = []"
    by (simp_all add: tasks_handleToggleTask ex_home_def)
  from empty_never_persisted [of "ex_home []" "''1''"] e
  have 2: "writes (handleToggleTask ''1'' (ex_home [])) = writes (ex_home [])"
    "persistEffect (ex_home []) = ex_home []"
    by blast+
  from ex_added_tasks st ne 1 e 2 show ?thesis
    by blast
qed

section \<open>The assistant session\<close>

lemma messages_begin:
  "messages (handleSendMessage_begin now ts text c) = messages c @
     [\<lparr>msg_id = toString now, msg_type = User, content = text, msg_tips = None,
       prioritySuggestions = None, relatedTopics = None, timestamp = ts\<rparr>]"
  by (simp add: handleSendMessage_begin_def)

lemma loading_begin: "loading (handleSendMessage_begin now ts text c)"
  by (simp add: handleSendMessage_begin_def)

lemma requests_begin:
  "requests (handleSendMessage_begin now ts text c) = requests c @ [(text, AGENT_ID)]"
  by (simp add: handleSendMessage_begin_def)

lemma loading_resume: "\<not> loading (handleSendMessage_resume now ts out c)"
  by (simp add: handleSendMessage_resume_def Let_def)

lemma requests_resume: "requests (handleSendMessage_resume now ts out c) = requests c"
  by (simp add: handleSendMessage_resume_def Let_def)

text \<open>
  A success envelope without a \<open>result\<close> ends in the \<open>catch\<close> block: still one assistant
  turn, with the network fallback as its content.
\<close>

lemma resume_missing_result:
  "success r \<Longrightarrow> status (response r) = ''success'' \<Longrightarrow> result (response r) = None \<Longrightarrow>
     messages (handleSendMessage_resume now ts (Fulfilled r) c) =
       messages c @ [networkErrorMessage now ts]"
  by (simp add: handleSendMessage_resume_def)

lemma ex_awaiting_eq:
  "ex_awaiting =
     handleSendMessage_begin 1793804400000 1793804400000 ''Prioritize my tasks''
       (initialChat\<lparr>input := ''Prioritize my tasks''\<rparr>)"
  by (simp add: ex_awaiting_def send_intent_def AIChat_handleSubmit_def trim_def
      isWhiteSpace_def initialChat_def)

lemma ex_awaiting_messages:
  "messages ex_awaiting =
     [\<lparr>msg_id = ''1793804400000'', msg_type = User, content = ''Prioritize my tasks'',
       msg_tips = None, prioritySuggestions = None, relatedTopics = None,
       timestamp = 1793804400000\<rparr>]"
  by (simp add: ex_awaiting_eq messages_begin initialChat_def toString_example)

text \<open>
  C3. However the request settles, exactly one turn is appended to the log, and it is an
  assistant turn. For a success envelope with status \<open>success\<close> it carries the answer, the
  tips, the priority suggestions and the related topics of the result; for any other
  envelope its content is the supplied message, or the fixed apology when the message is
  absent or empty, and it carries no tips, suggestions or topics; when the request fails
  its content is the fixed network-error text.
\<close>

theorem one_assistant_turn:
  "\<exists>m. messages (handleSendMessage_resume now ts out c) = messages c @ [m] \<and>
        msg_type m = Assistant \<and>
        (\<forall>r data. out = Fulfilled r \<and> success r \<and> status (response r) = ''success'' \<and>
             result (response r) = Some data \<longrightarrow>
           content m = answer data \<and> msg_tips m = Some (tips data) \<and>
           prioritySuggestions m = Some (priority_suggestions data) \<and>
           relatedTopics m = Some (related_topics data)) \<and>
        (\<forall>r. out = Fulfilled r \<and> \<not> (success r \<and> status (response r) = ''success'') \<longrightarrow>
           content m =
             (case message (response r) of
                None \<Rightarrow> ''Sorry, I encountered an error. Please try again.''
              | Some t \<Rightarrow> if t = [] then ''Sorry, I encountered an error. Please try again.''
                          else t) \<and>
           msg_tips m = None \<and> prioritySuggestions m = None \<and> relatedTopics m = None) \<and>
        (out = Rejected \<longrightarrow>
           content m = ''Network error. Please check your connection and try again.'')"
  by (cases out)
     (auto simp add: handleSendMessage_resume_def networkErrorMessage_def
        split: option.splits)

text \<open>
  After ``Prioritize my tasks'' is sent: the success envelope of the example adds the
  answer with its tips, the envelope with status \<open>error\<close> adds its message, and a failed
  request adds the network-error text; in each case the log grows from one turn to two.
\<close>

theorem one_assistant_turn_witness:
  "messages (handleSendMessage_resume 1793804400700 1793804400701 ex_success ex_awaiting) =
     messages ex_awaiting @
       [\<lparr>msg_id = ''1793804400701'', msg_type = Assistant, content = ''Focus on high priority'',
         msg_tips = Some [''Do urgent first''], prioritySuggestions = Some [''Review Q1''],
         relatedTopics = Some [''time-management''], timestamp = 1793804400701\<rparr>] \<and>
   messages (handleSendMessage_resume 1793804400700 1793804400701 ex_soft_error ex_awaiting) =
     messages ex_awaiting @
       [\<lparr>msg_id = ''1793804400701'', msg_type = Assistant, content = ''Quota exceeded'',
         msg_tips = None, prioritySuggestions = None, relatedTopics = None,
         timestamp = 1793804400701\<rparr>] \<and>
   messages (handleSendMessage_resume 1793804400700 1793804400701 Rejected ex_awaiting) =
     messages ex_awaiting @
       [\<lparr>msg_id = ''1793804400701'', msg_type = Assistant,
         content = ''Network error. Please check your connection and try again.'',
         msg_tips = None, prioritySuggestions = None, relatedTopics = None,
         timestamp = 1793804400701\<rparr>] \<and>
   length (messages (handleSendMessage_resume 1793804400700 1793804400701 Rejected ex_awaiting)) = 2"
  using one_assistant_turn [of 1793804400700 1793804400701 ex_success ex_awaiting]
    one_assistant_turn [of 1793804400700 1793804400701 ex_soft_error ex_awaiting]
    one_assistant_turn [of 1793804400700 1793804400701 Rejected ex_awaiting]
  by (simp add: handleSendMessage_resume_def networkErrorMessage_def ex_success_def
      ex_soft_error_def ex_awaiting_messages toString_def digits.simps digit_char_def)

subsection \<open>Sending while a request is awaited\<close>

lemma handleSubmit_loading:
  "loading c \<Longrightarrow> AIChat_handleSubmit now ts c = Inl ValidationError"
  by (simp add: AIChat_handleSubmit_def)

text \<open>While a request is awaited the log is not empty, so no suggestion button is shown.\<close>

lemma loading_nonempty:
  "reachable_chat c \<Longrightarrow> loading c \<Longrightarrow> messages c \<noteq> []"
proof (induction rule: reachable_chat.induct)
  case init
  then show ?case
    by (simp add: initialChat_def)
next
  case (typing c s)
  then show ?case
    by simp
next
  case (send c now ts i)
  then show ?case
    by (cases i)
       (auto simp add: send_intent_def AIChat_handleSubmit_def handleSuggestionClick_def
          messages_begin split: if_splits)
next
  case (settle c now ts out)
  then show ?case
    by (simp add: loading_resume)
qed

text \<open>
  C6. In every state the chat can reach in which a request is awaited, a send intent
  (submitting the form or clicking a suggestion) leaves the state as it is: no turn is
  appended, the log keeps its length, and no request is issued.
\<close>

theorem send_while_awaiting_ignored:
  "reachable_chat c \<Longrightarrow> loading c \<Longrightarrow>
     send_intent now ts i c = c \<and>
     length (messages (send_intent now ts i c)) = length (messages c) \<and>
     requests (send_intent now ts i c) = requests c"
proof -
  assume r: "reachable_chat c" and l: "loading c"
  then have "messages c \<noteq> []"
    by (rule loading_nonempty)
  with l have "send_intent now ts i c = c"
    by (cases i) (simp_all add: send_intent_def AIChat_handleSubmit_def)
  then show ?thesis
    by simp
qed

text \<open>
  After ``Prioritize my tasks'' is submitted a request is awaited; typing ``And then?''
  and submitting it, half a second later, changes nothing.
\<close>

theorem send_while_awaiting_ignored_witness:
  "reachable_chat (ex_awaiting\<lparr>input := ''And then?''\<rparr>) \<and>
   loading (ex_awaiting\<lparr>input := ''And then?''\<rparr>) \<and>
   requests (ex_awaiting\<lparr>input := ''And then?''\<rparr>) = [(''Prioritize my tasks'', AGENT_ID)] \<and>
   send_intent 1793804400500 1793804400500 SubmitForm (ex_awaiting\<lparr>input := ''And then?''\<rparr>) =
     ex_awaiting\<lparr>input := ''And then?''\<rparr> \<and>
   requests (send_intent 1793804400500 1793804400500 SubmitForm
     (ex_awaiting\<lparr>input := ''And then?''\<rparr>)) = [(''Prioritize my tasks'', AGENT_ID)]"
proof -
  have r: "reachable_chat (ex_awaiting\<lparr>input := ''And then?''\<rparr>)"
    unfolding ex_awaiting_def by (intro reachable_chat.intros)
  have l: "loading (ex_awaiting\<lparr>input := ''And then?''\<rparr>)"
    by (simp add: ex_awaiting_eq loading_begin)
  have q: "requests (ex_awaiting\<lparr>input := ''And then?''\<rparr>) = [(''Prioritize my tasks'', AGENT_ID)]"
    by (simp add: ex_awaiting_eq requests_begin initialChat_def)
  from send_while_awaiting_ignored [OF r l, of 1793804400500 1793804400500 SubmitForm] r l q
  show ?thesis
    by simp
qed

end
